theory Spec2Isabelle
  imports Main "HOL-Library.Word" "HOL-Library.Sublist"
begin

section \<open>The truncation routine of \<^verbatim>\<open>src/truncateString.cpp\<close>\<close>

text \<open>
  The repository's core is one C++ function,

  \<^verbatim>\<open>std::string truncateString(const std::string& str, size_t width)\<close>

  A \<^verbatim>\<open>std::string\<close> is a sequence of bytes, here a \<^typ>\<open>string\<close> (a list of \<^typ>\<open>char\<close>),
  and \<^verbatim>\<open>length()\<close> counts its bytes, as \<^const>\<open>length\<close> does.  The parameter
  \<^verbatim>\<open>width\<close> is a \<^verbatim>\<open>size_t\<close>: an unsigned machine integer whose number of bits depends on
  the target (32 on the ESP32 this firmware is built for, 64 on a desktop host running the
  tests).  It is modelled as a word of arbitrary length \<^typ>\<open>'a::len word\<close>, so that every
  statement below holds for each of these targets; \<^verbatim>\<open>width - 1\<close> is the word subtraction,
  which would wrap at \<^verbatim>\<open>width == 0\<close>.

  \<^verbatim>\<open>str.length()\<close> is a \<^verbatim>\<open>size_t\<close> as well.  A \<^verbatim>\<open>std::string\<close> never holds more than
  \<^verbatim>\<open>max_size()\<close> bytes, which is below the range of \<^verbatim>\<open>size_t\<close>, so the value returned is
  the exact number of bytes and the unsigned comparison \<^verbatim>\<open>str.length() > width\<close> is the
  comparison of that number with the value of \<^verbatim>\<open>width\<close>.
\<close>

subsection \<open>The library call\<close>

text \<open>
  \<^verbatim>\<open>str.substr(pos, n)\<close> is the substring that starts at index \<^verbatim>\<open>pos\<close> and holds \<^verbatim>\<open>n\<close>
  bytes, or all the bytes up to the end of \<^verbatim>\<open>str\<close> when fewer are left.  It throws
  \<^verbatim>\<open>std::out_of_range\<close> only for \<^verbatim>\<open>pos > str.length()\<close>; both calls in the routine pass
  \<^verbatim>\<open>pos = 0\<close>, where this cannot happen.
\<close>

definition substr :: "string \<Rightarrow> nat \<Rightarrow> nat \<Rightarrow> string" where
  "substr str pos n = take n (drop pos str)"

subsection \<open>The routine\<close>

definition truncateString :: "string \<Rightarrow> 'a::len word \<Rightarrow> string" where
  "truncateString str width =
     (if length str > unat width then
        (if width > 1 then substr str 0 (unat (width - 1)) @ ''.''
         else if width = 1 then substr str 0 1
         else '''')
      else str)"

section \<open>Auxiliary facts\<close>

lemma substr_0: "substr str 0 n = take n str"
  by (simp add: substr_def)

lemma size_t_gt_1: "(1 < w) = (1 < unat w)" for w :: "'a::len word"
  by (simp add: word_less_nat_alt)

lemma size_t_eq_1: "(w = 1) = (unat w = 1)" for w :: "'a::len word"
  by (simp add: word_unat_eq_iff)

lemma size_t_pred: "1 < w \<Longrightarrow> unat (w - 1) = unat w - 1" for w :: "'a::len word"
  by (rule unat_minus_one) auto

text \<open>
  For a string within the range of \<^verbatim>\<open>size_t\<close>, as every \<^verbatim>\<open>std::string\<close> is, comparing
  the \<^verbatim>\<open>size_t\<close> returned by \<^verbatim>\<open>length()\<close> with \<^verbatim>\<open>width\<close> is comparing the number of
  bytes with the value of \<^verbatim>\<open>width\<close>, the test that \<^const>\<open>truncateString\<close> makes.
\<close>

lemma length_as_size_t:
  "length str < 2 ^ LENGTH('a) \<Longrightarrow>
     ((of_nat (length str) :: 'a::len word) > width) = (length str > unat width)"
  by (simp add: word_less_nat_alt unat_of_nat)

text \<open>
  The routine read through the value of \<^verbatim>\<open>width\<close>: the subtraction is reached only under
  \<^verbatim>\<open>width > 1\<close> and does not wrap there.
\<close>

lemma truncateString_unat:
  "truncateString str width =
     (if length str > unat width then
        (if 1 < unat width then take (unat width - 1) str @ ''.''
         else if unat width = 1 then take 1 str
         else '''')
      else str)"
  by (simp add: truncateString_def substr_0 size_t_gt_1 size_t_eq_1 size_t_pred)

section \<open>Length of the result\<close>

text \<open>
  Claim C1.  For every string \<open>s\<close> and every width \<open>w\<close>, the result of
  \<open>truncateString s w\<close> has \<open>min (length s) w\<close> characters (none when \<open>w\<close> is 0).
\<close>

theorem truncateString_length:
  "length (truncateString s w) = min (length s) (unat w)"
  by (simp add: truncateString_unat)

text \<open>
  Claim C2.  For every string \<open>s\<close> and every width \<open>w\<close>, the result of
  \<open>truncateString s w\<close> has at most \<open>w\<close> characters.
\<close>

theorem truncateString_length_le_width:
  "length (truncateString s w) \<le> unat w"
  by (simp add: truncateString_unat)

section \<open>The four branches\<close>

text \<open>
  Claim C3.  A string of at most \<open>w\<close> characters is returned as it is; in particular the
  empty string is returned empty, whatever the width.
\<close>

theorem truncateString_fits:
  "(length s \<le> unat w \<longrightarrow> truncateString s w = s) \<and> truncateString [] w = []"
  by (simp add: truncateString_def)

theorem truncateString_fits_witness:
  "length ''abc'' \<le> unat (5 :: 32 word) \<and> truncateString ''abc'' (5 :: 32 word) = ''abc''
   \<and> truncateString [] (5 :: 32 word) = []"
  using truncateString_fits [of "''abc''" "5 :: 32 word"]
  by simp

text \<open>
  Claim C4.  A string of more than \<open>w\<close> characters, for a width \<open>w\<close> above 1, is cut to its
  first \<open>w - 1\<close> characters followed by the marker \<open>.\<close>: the result has exactly \<open>w\<close>
  characters and the last one is the marker.
\<close>

theorem truncateString_marker:
  assumes "length s > unat w" and "w > 1"
  shows "truncateString s w = take (unat w - 1) s @ ''.''
       \<and> length (truncateString s w) = unat w
       \<and> last (truncateString s w) = CHR ''.''"
  using assms by (simp add: truncateString_unat size_t_gt_1)

theorem truncateString_marker_witness:
  "length ''abcdef'' > unat (5 :: 32 word) \<and> (5 :: 32 word) > 1
   \<and> truncateString ''abcdef'' (5 :: 32 word) = ''abcd.''
   \<and> length (truncateString ''abcdef'' (5 :: 32 word)) = 5
   \<and> last (truncateString ''abcdef'' (5 :: 32 word)) = CHR ''.''"
  using truncateString_marker [of "5 :: 32 word" "''abcdef''"]
  by simp

text \<open>
  Claim C5.  A string of more than one character, at width 1, is cut to its first character,
  and no marker is appended.
\<close>

theorem truncateString_width_1:
  assumes "length s > unat w" and "w = 1"
  shows "truncateString s w = [hd s]"
proof -
  from assms have "1 < length s"
    by simp
  then obtain c cs where "s = c # cs"
    by (cases s) auto
  with assms show ?thesis
    by (simp add: truncateString_unat)
qed

theorem truncateString_width_1_witness:
  "length ''abcdef'' > unat (1 :: 32 word) \<and> truncateString ''abcdef'' (1 :: 32 word) = ''a''"
  using truncateString_width_1 [of "1 :: 32 word" "''abcdef''"]
  by simp

text \<open>
  Claim C6.  At width 0 the result is the empty string, for every input.
\<close>

theorem truncateString_width_0:
  "truncateString s (0 :: 'a::len word) = []"
  by (simp add: truncateString_unat)

section \<open>Truncating twice\<close>

text \<open>
  Claim C7.  Truncating at the same width a second time changes nothing.
\<close>

theorem truncateString_idempotent:
  "truncateString (truncateString s w) w = truncateString s w"
proof -
  have "length (truncateString s w) \<le> unat w"
    by (simp add: truncateString_unat)
  then show ?thesis
    by (simp add: truncateString_unat [of "truncateString s w"])
qed

text \<open>
  Claim C9.  Truncating at a width \<open>w2\<close> and then at a width \<open>w1 \<le> w2\<close> gives what
  truncating at \<open>w1\<close> alone gives.
\<close>

theorem truncateString_compose:
  assumes "w1 \<le> w2"
  shows "truncateString (truncateString s w2) w1 = truncateString s w1"
proof -
  from assms have le: "unat w1 \<le> unat w2"
    by (simp add: word_le_nat_alt)
  show ?thesis
  proof (cases "length s > unat w2")
    case False
    then show ?thesis
      by (simp add: truncateString_unat [of s w2])
  next
    case long: True
    let ?t = "truncateString s w2"
    have len_t: "length ?t = unat w2"
      using long by (simp add: truncateString_unat)
    show ?thesis
    proof (cases "unat w1 = unat w2")
      case True
      then have "w1 = w2"
        by (simp add: word_unat_eq_iff)
      with len_t show ?thesis
        by (simp add: truncateString_unat [of ?t w2])
    next
      case False
      with le have lt: "unat w1 < unat w2"
        by simp
      have head: "take (unat w1 - 1) ?t = take (unat w1 - 1) s"
        using long lt by (simp add: truncateString_unat [of s w2] min_def)
      have one: "take 1 ?t = take 1 s" if "unat w1 = 1"
        using long lt that by (simp add: truncateString_unat [of s w2])
      have "truncateString ?t w1 =
          (if 1 < unat w1 then take (unat w1 - 1) ?t @ ''.''
           else if unat w1 = 1 then take 1 ?t else [])"
        using lt len_t by (simp add: truncateString_unat [of ?t w1])
      also have "\<dots> =
          (if 1 < unat w1 then take (unat w1 - 1) s @ ''.''
           else if unat w1 = 1 then take 1 s else [])"
        using head one by simp
      also have "\<dots> = truncateString s w1"
        using long lt by (simp add: truncateString_unat [of s w1])
      finally show ?thesis .
    qed
  qed
qed

theorem truncateString_compose_witness:
  "(3 :: 32 word) \<le> 5
   \<and> truncateString (truncateString ''abcdef'' (5 :: 32 word)) (3 :: 32 word) = ''ab.''
   \<and> truncateString ''abcdef'' (3 :: 32 word) = ''ab.''"
  using truncateString_compose [of "3 :: 32 word" "5 :: 32 word" "''abcdef''"]
  by (simp add: truncateString_def substr_def)

section \<open>Shape of the result\<close>

text \<open>
  Claim C10.  The result is a prefix of the input (the input itself and the empty string
  included), or a proper prefix of the input followed by the marker \<open>.\<close>; so it is never
  longer than the input.
\<close>

theorem truncateString_shape:
  "(prefix (truncateString s w) s
      \<or> (\<exists>p. strict_prefix p s \<and> truncateString s w = p @ ''.''))
   \<and> length (truncateString s w) \<le> length s"
proof
  show "length (truncateString s w) \<le> length s"
    by (simp add: truncateString_unat)
  show "prefix (truncateString s w) s
      \<or> (\<exists>p. strict_prefix p s \<and> truncateString s w = p @ ''.'')"
  proof (cases "unat w < length s \<and> 1 < unat w")
    case True
    then have "\<not> length s \<le> unat w - 1"
      by arith
    then have "take (unat w - 1) s \<noteq> s"
      by (simp add: take_all_iff)
    then have "strict_prefix (take (unat w - 1) s) s"
      by (simp add: strict_prefix_def take_is_prefix)
    moreover have "truncateString s w = take (unat w - 1) s @ ''.''"
      using True by (simp add: truncateString_unat)
    ultimately show ?thesis
      by blast
  next
    case False
    then have "truncateString s w = take (unat w) s"
      by (cases "unat w = 1") (auto simp add: truncateString_unat)
    then show ?thesis
      by (simp add: take_is_prefix)
  qed
qed

end
